theory Spec2Isabelle
  imports Complex_Main "HOL-Library.Sublist"
begin

section \<open>The caching proxy of \<^verbatim>\<open>app.py\<close>\<close>

text \<open>
  The program is a Flask handler \<^verbatim>\<open>proxy\<close> in front of two upstream APIs, with an
  SQLite table as a persistent cache. The embedding keeps the functions of \<^verbatim>\<open>app.py\<close>
  under their own names. What the program takes from libraries (the JSON parser, the
  SHA-256 digest, percent-encoding, the HTTP client) is a parameter of the model, so
  every theorem holds for whatever those libraries compute. Logging is left out: it
  changes no value the handler returns.
\<close>

subsection \<open>Python values and exceptions\<close>

text \<open>
  The exceptions that can travel through the handler. \<^verbatim>\<open>json.loads\<close> raises
  \<^verbatim>\<open>JSONDecodeError\<close> on text that is not JSON, and can raise \<^verbatim>\<open>RecursionError\<close> or a
  plain \<^verbatim>\<open>ValueError\<close> (nesting too deep, an integer literal beyond the digit limit);
  \<^verbatim>\<open>sqlite3\<close> raises its own errors.
\<close>

datatype exn = JSONDecodeError | KeyError | TypeError | ValueError | RecursionError | DatabaseError

text \<open>
  A Python float is a rational number, an infinity or NaN; Python compares a float with
  an int by their exact values.
\<close>

datatype pyfloat = Finite rat | PosInf | NegInf | NaN

text \<open>
  What \<^verbatim>\<open>json.loads\<close> can return: \<^verbatim>\<open>None\<close>, a bool, an int, a float, a str, a list or a
  dict. A dict is the list of its items, in insertion order, with distinct keys.
\<close>

datatype json =
    PyNone
  | PyBool bool
  | PyInt int
  | PyFloat pyfloat
  | PyStr string
  | PyList "json list"
  | PyDict "(string \<times> json) list"

subsection \<open>String helpers\<close>

text \<open>
  A string is a list of 8-bit characters; a Python string beyond ASCII stands for its
  UTF-8 bytes. The program strips \<^verbatim>\<open>/\<close>, compares with ASCII prefixes, tests for empty
  strings and concatenates, all of which are the same on code points and on bytes.
\<close>

text \<open>\<^verbatim>\<open>path.lstrip("/")\<close>: every leading slash is removed.\<close>

definition lstrip_slash :: "string \<Rightarrow> string" where
  "lstrip_slash path = dropWhile (\<lambda>c. c = CHR ''/'') path"

text \<open>\<^verbatim>\<open>s.startswith(p)\<close>.\<close>

definition startswith :: "string \<Rightarrow> string \<Rightarrow> bool" where
  "startswith s p \<longleftrightarrow> take (length p) s = p"

text \<open>\<^verbatim>\<open>sub in s\<close> for two strings: \<^verbatim>\<open>sub\<close> occurs in \<^verbatim>\<open>s\<close> as a contiguous piece.\<close>

fun str_contains :: "string \<Rightarrow> string \<Rightarrow> bool" where
  "str_contains [] sub = (sub = [])"
| "str_contains (c # s) sub = (startswith (c # s) sub \<or> str_contains s sub)"

text \<open>\<^verbatim>\<open>sep.join(parts)\<close>.\<close>

fun join :: "string \<Rightarrow> string list \<Rightarrow> string" where
  "join sep [] = []"
| "join sep [x] = x"
| "join sep (x # y # ys) = x @ sep @ join sep (y # ys)"

subsection \<open>Configuration\<close>

definition ALLOWED_DOMAINS :: "string list" where
  "ALLOWED_DOMAINS = [''openexchangerates.org'', ''api.twelvedata.com'']"

definition CACHEABLE_PATHS :: "string list" where
  "CACHEABLE_PATHS = [''openexchangerates.org/api/historical'', ''api.twelvedata.com/eod'']"

subsection \<open>The request gate\<close>

definition is_allowed_domain :: "string \<Rightarrow> bool" where
  "is_allowed_domain path =
     (let path_clean = lstrip_slash path
      in list_ex (\<lambda>domain. startswith path_clean domain) ALLOWED_DOMAINS)"

definition is_cacheable_path :: "string \<Rightarrow> bool" where
  "is_cacheable_path path =
     (let path_clean = lstrip_slash path
      in list_ex (\<lambda>pattern. startswith path_clean pattern) CACHEABLE_PATHS)"

subsection \<open>The response gate\<close>

text \<open>
  \<^verbatim>\<open>"code" in json_data\<close>. A dict is asked for a key, a list for an element equal to the
  string, a string for a substring; anything else is not a container and the test raises
  \<^verbatim>\<open>TypeError\<close>.
\<close>

fun contains_code :: "json \<Rightarrow> exn + bool" where
  "contains_code (PyDict items) = Inr (''code'' \<in> set (map fst items))"
| "contains_code (PyList xs) = Inr (PyStr ''code'' \<in> set xs)"
| "contains_code (PyStr s) = Inr (str_contains s ''code'')"
| "contains_code PyNone = Inl TypeError"
| "contains_code (PyBool b) = Inl TypeError"
| "contains_code (PyInt n) = Inl TypeError"
| "contains_code (PyFloat x) = Inl TypeError"

text \<open>
  \<^verbatim>\<open>json_data["code"]\<close>. Only a dict takes a string subscript (\<^verbatim>\<open>KeyError\<close> when the key
  is missing); a list and a string want an integer, the rest cannot be subscripted.
\<close>

fun getitem_code :: "json \<Rightarrow> exn + json" where
  "getitem_code (PyDict items) =
     (case map_of items ''code'' of None \<Rightarrow> Inl KeyError | Some v \<Rightarrow> Inr v)"
| "getitem_code (PyList xs) = Inl TypeError"
| "getitem_code (PyStr s) = Inl TypeError"
| "getitem_code PyNone = Inl TypeError"
| "getitem_code (PyBool b) = Inl TypeError"
| "getitem_code (PyInt n) = Inl TypeError"
| "getitem_code (PyFloat x) = Inl TypeError"

text \<open>
  \<^verbatim>\<open>code == k\<close> for an int literal \<^verbatim>\<open>k\<close>: never raises; a bool counts as 0 or 1, and
  a value that is not a number is simply unequal.
\<close>

fun py_eq_int :: "json \<Rightarrow> int \<Rightarrow> bool" where
  "py_eq_int (PyInt n) k = (n = k)"
| "py_eq_int (PyBool b) k = ((if b then 1 else 0) = k)"
| "py_eq_int (PyFloat (Finite q)) k = (q = of_int k)"
| "py_eq_int (PyFloat PosInf) k = False"
| "py_eq_int (PyFloat NegInf) k = False"
| "py_eq_int (PyFloat NaN) k = False"
| "py_eq_int PyNone k = False"
| "py_eq_int (PyStr s) k = False"
| "py_eq_int (PyList xs) k = False"
| "py_eq_int (PyDict items) k = False"

text \<open>
  \<^verbatim>\<open>code >= k\<close> and \<^verbatim>\<open>code < k\<close>: ordering is defined between numbers only, and raises
  \<^verbatim>\<open>TypeError\<close> for \<^verbatim>\<open>None\<close>, a string, a list or a dict. NaN compares false.
\<close>

fun py_ge_int :: "json \<Rightarrow> int \<Rightarrow> exn + bool" where
  "py_ge_int (PyInt n) k = Inr (k \<le> n)"
| "py_ge_int (PyBool b) k = Inr (k \<le> (if b then 1 else 0))"
| "py_ge_int (PyFloat (Finite q)) k = Inr (of_int k \<le> q)"
| "py_ge_int (PyFloat PosInf) k = Inr True"
| "py_ge_int (PyFloat NegInf) k = Inr False"
| "py_ge_int (PyFloat NaN) k = Inr False"
| "py_ge_int PyNone k = Inl TypeError"
| "py_ge_int (PyStr s) k = Inl TypeError"
| "py_ge_int (PyList xs) k = Inl TypeError"
| "py_ge_int (PyDict items) k = Inl TypeError"

fun py_lt_int :: "json \<Rightarrow> int \<Rightarrow> exn + bool" where
  "py_lt_int (PyInt n) k = Inr (n < k)"
| "py_lt_int (PyBool b) k = Inr ((if b then 1 else 0) < k)"
| "py_lt_int (PyFloat (Finite q)) k = Inr (q < of_int k)"
| "py_lt_int (PyFloat PosInf) k = Inr False"
| "py_lt_int (PyFloat NegInf) k = Inr True"
| "py_lt_int (PyFloat NaN) k = Inr False"
| "py_lt_int PyNone k = Inl TypeError"
| "py_lt_int (PyStr s) k = Inl TypeError"
| "py_lt_int (PyList xs) k = Inl TypeError"
| "py_lt_int (PyDict items) k = Inl TypeError"

text \<open>
  The body of the \<^verbatim>\<open>try\<close> block of \<^verbatim>\<open>should_cache_response\<close>: parse, look for
  \<^verbatim>\<open>"code"\<close>, and test \<^verbatim>\<open>code == 429 or (code >= 500 and code < 600)\<close> left to right,
  stopping at the first exception. \<^verbatim>\<open>json_loads\<close> is the parser.
\<close>

definition twelvedata_try :: "(string \<Rightarrow> exn + json) \<Rightarrow> string \<Rightarrow> exn + bool" where
  "twelvedata_try json_loads data =
     (case json_loads data of
        Inl e \<Rightarrow> Inl e
      | Inr json_data \<Rightarrow>
          (case contains_code json_data of
             Inl e \<Rightarrow> Inl e
           | Inr present \<Rightarrow>
               if \<not> present then Inr True
               else
                 (case getitem_code json_data of
                    Inl e \<Rightarrow> Inl e
                  | Inr code \<Rightarrow>
                      if py_eq_int code 429 then Inr False
                      else
                        (case py_ge_int code 500 of
                           Inl e \<Rightarrow> Inl e
                         | Inr ge \<Rightarrow>
                             if \<not> ge then Inr True
                             else
                               (case py_lt_int code 600 of
                                  Inl e \<Rightarrow> Inl e
                                | Inr lt \<Rightarrow> if lt then Inr False else Inr True)))))"

text \<open>
  \<^verbatim>\<open>should_cache_response(path, status_code, data)\<close>. The \<^verbatim>\<open>except\<close> clause names
  \<^verbatim>\<open>json.JSONDecodeError\<close> and \<^verbatim>\<open>KeyError\<close>; any other exception leaves the function.
\<close>

definition should_cache_response ::
  "(string \<Rightarrow> exn + json) \<Rightarrow> string \<Rightarrow> int \<Rightarrow> string \<Rightarrow> exn + bool" where
  "should_cache_response json_loads path status_code data =
     (if \<not> is_cacheable_path path then Inr False
      else if status_code \<noteq> 200 then Inr False
      else
        let path_clean = lstrip_slash path
        in if startswith path_clean ''openexchangerates.org'' then Inr True
           else if startswith path_clean ''api.twelvedata.com'' then
             (case twelvedata_try json_loads data of
                Inl e \<Rightarrow> if e = JSONDecodeError \<or> e = KeyError then Inr True else Inl e
              | Inr decision \<Rightarrow> Inr decision)
           else Inr False)"

subsection \<open>The cache store\<close>

text \<open>
  The table \<^verbatim>\<open>cache (requestHash TEXT PRIMARY KEY, data TEXT NOT NULL, created_at)\<close>
  is the list of its rows, oldest first.
\<close>

record cache_row =
  requestHash :: string
  data :: string
  created_at :: nat

text \<open>
  The database file: \<^verbatim>\<open>cache = None\<close> until \<^verbatim>\<open>init_db\<close> has created the table,
  \<^verbatim>\<open>now\<close> is the value of \<^verbatim>\<open>CURRENT_TIMESTAMP\<close>. An SQLite call can fail for reasons
  outside the program (a locked or unreadable file, a full disk); \<^verbatim>\<open>read_fails\<close> and
  \<^verbatim>\<open>write_fails\<close> say whether the next \<^verbatim>\<open>SELECT\<close> and the next write raise.
\<close>

record database =
  cache :: "cache_row list option"
  now :: nat
  read_fails :: bool
  write_fails :: bool

text \<open>\<^verbatim>\<open>CREATE TABLE IF NOT EXISTS\<close>: an existing table keeps its rows.\<close>

definition init_db :: "database \<Rightarrow> exn + database" where
  "init_db db =
     (if write_fails db then Inl DatabaseError
      else case cache db of
             None \<Rightarrow> Inr (db\<lparr>cache := Some []\<rparr>)
           | Some rows \<Rightarrow> Inr db)"

text \<open>
  \<^verbatim>\<open>SELECT data FROM cache WHERE requestHash = ?\<close> and \<^verbatim>\<open>fetchone()\<close>: the first matching
  row; \<^verbatim>\<open>result[0] if result else None\<close>.
\<close>

definition get_cached_data :: "database \<Rightarrow> string \<Rightarrow> exn + string option" where
  "get_cached_data db request_hash =
     (if read_fails db then Inl DatabaseError
      else case cache db of
             None \<Rightarrow> Inl DatabaseError
           | Some rows \<Rightarrow>
               (case find (\<lambda>r. requestHash r = request_hash) rows of
                  None \<Rightarrow> Inr None
                | Some result \<Rightarrow> Inr (Some (data result))))"

text \<open>
  \<^verbatim>\<open>INSERT OR REPLACE\<close>: the rows that clash with the new primary key are deleted, then
  the new row is added.
\<close>

definition insert_or_replace :: "cache_row \<Rightarrow> cache_row list \<Rightarrow> cache_row list" where
  "insert_or_replace row rows =
     filter (\<lambda>r. requestHash r \<noteq> requestHash row) rows @ [row]"

definition cache_data :: "database \<Rightarrow> string \<Rightarrow> string \<Rightarrow> exn + database" where
  "cache_data db request_hash d =
     (if write_fails db then Inl DatabaseError
      else case cache db of
             None \<Rightarrow> Inl DatabaseError
           | Some rows \<Rightarrow>
               Inr (db\<lparr>cache := Some (insert_or_replace
                      \<lparr>requestHash = request_hash, data = d, created_at = now db\<rparr> rows)\<rparr>))"

subsection \<open>The handler\<close>

text \<open>
  What \<^verbatim>\<open>urllib.request.urlopen\<close> does with the request: a response with its status
  code and decoded body, an \<^verbatim>\<open>HTTPError\<close> with its code and text, or any other
  exception with its text.
\<close>

datatype upstream =
    Returned int string
  | HTTPError int string
  | Failed string

text \<open>The library functions and the upstream server, as the handler sees them.\<close>

record env =
  sha256_hexdigest :: "string \<Rightarrow> string"
  quote_plus :: "string \<Rightarrow> string"
  json_loads :: "string \<Rightarrow> exn + json"
  urlopen :: "string \<Rightarrow> upstream"

text \<open>
  The body of a response is the text passed through, or what \<^verbatim>\<open>jsonify\<close> makes of
  \<^verbatim>\<open>{"error": ...}\<close> for a message or for \<^verbatim>\<open>str(e)\<close> of an exception.
\<close>

datatype body =
    Verbatim string
  | Error_message string
  | Error_exception exn

record response =
  body :: body
  status :: int
  headers :: "(string \<times> string) list"

text \<open>What the handler does to the world besides answering, in order.\<close>

datatype event =
    CacheGet string
  | CachePut string string
  | Urlopen string

definition jsonify_error :: "body \<Rightarrow> int \<Rightarrow> response" where
  "jsonify_error b code =
     \<lparr>body = b, status = code, headers = [(''Content-Type'', ''application/json'')]\<rparr>"

definition passthrough :: "string \<Rightarrow> int \<Rightarrow> string \<Rightarrow> response" where
  "passthrough d code marker =
     \<lparr>body = Verbatim d, status = code,
      headers = [(''Content-Type'', ''application/json''), (''X-Cache'', marker)]\<rparr>"

text \<open>\<^verbatim>\<open>urllib.parse.urlencode(query_params)\<close> for a dict of strings.\<close>

definition urlencode :: "(string \<Rightarrow> string) \<Rightarrow> (string \<times> string) list \<Rightarrow> string" where
  "urlencode quote query_params =
     join ''&'' (map (\<lambda>(k, v). quote k @ ''='' @ quote v) query_params)"

text \<open>
  \<^verbatim>\<open>full_path = f"/{path}?{query_string}" if query_string else f"/{path}"\<close>, the string
  that is hashed and, behind \<^verbatim>\<open>https:/\<close>, requested.
\<close>

definition full_path :: "(string \<Rightarrow> string) \<Rightarrow> string \<Rightarrow> (string \<times> string) list \<Rightarrow> string" where
  "full_path quote path query_params =
     (let query_string = urlencode quote query_params
      in if query_string \<noteq> [] then ''/'' @ path @ ''?'' @ query_string else ''/'' @ path)"

text \<open>\<^verbatim>\<open>upstream_url = f"https:/{full_path}"\<close>.\<close>

definition upstream_url_of :: "(string \<Rightarrow> string) \<Rightarrow> string \<Rightarrow> (string \<times> string) list \<Rightarrow> string" where
  "upstream_url_of quote path query_params = ''https:/'' @ full_path quote path query_params"

text \<open>
  \<^verbatim>\<open>request_hash\<close>: \<^verbatim>\<open>None\<close> unless the path is cacheable, then
  \<^verbatim>\<open>hashlib.sha256(full_path.encode()).hexdigest()\<close>.
\<close>

definition request_hash_of :: "env \<Rightarrow> string \<Rightarrow> (string \<times> string) list \<Rightarrow> string option" where
  "request_hash_of env path query_params =
     (if is_cacheable_path path
      then Some (sha256_hexdigest env (full_path (quote_plus env) path query_params))
      else None)"

text \<open>
  The second half of \<^verbatim>\<open>proxy\<close>, from \<^verbatim>\<open># Make upstream request\<close> on: call the upstream,
  ask \<^verbatim>\<open>should_cache_response\<close>, write to the cache under \<^verbatim>\<open>should_cache and
  request_hash\<close>, and answer. An exception of the cache write is caught on the spot;
  every other exception ends in one of the two outer \<^verbatim>\<open>except\<close> clauses.
\<close>

definition upstream_request ::
  "env \<Rightarrow> database \<Rightarrow> string \<Rightarrow> string \<Rightarrow> string option \<Rightarrow> response \<times> database \<times> event list" where
  "upstream_request env db path upstream_url request_hash =
     (case urlopen env upstream_url of
        HTTPError code msg \<Rightarrow> (jsonify_error (Error_message msg) code, db, [Urlopen upstream_url])
      | Failed msg \<Rightarrow> (jsonify_error (Error_message msg) 500, db, [Urlopen upstream_url])
      | Returned status_code d \<Rightarrow>
          (case should_cache_response (json_loads env) path status_code d of
             Inl e \<Rightarrow> (jsonify_error (Error_exception e) 500, db, [Urlopen upstream_url])
           | Inr should_cache \<Rightarrow>
               (case request_hash of
                  None \<Rightarrow> (passthrough d status_code ''MISS'', db, [Urlopen upstream_url])
                | Some h \<Rightarrow>
                    if should_cache \<and> h \<noteq> [] then
                      (case cache_data db h d of
                         Inl e \<Rightarrow>
                           (passthrough d status_code ''MISS'', db,
                            [Urlopen upstream_url, CachePut h d])
                       | Inr db' \<Rightarrow>
                           (passthrough d status_code ''MISS'', db',
                            [Urlopen upstream_url, CachePut h d]))
                    else (passthrough d status_code ''MISS'', db, [Urlopen upstream_url]))))"

text \<open>
  The \<^verbatim>\<open>try\<close> block around the cache read: it leaves the handler with the cached body
  when \<^verbatim>\<open>if cached_data:\<close> holds, and otherwise falls through to the upstream request,
  after a miss (\<^verbatim>\<open>None\<close>), after a body that Python counts as false (the empty string)
  and after any exception of the read, which \<^verbatim>\<open>except Exception\<close> only logs.
\<close>

definition cache_lookup :: "database \<Rightarrow> string \<Rightarrow> string option" where
  "cache_lookup db h =
     (case get_cached_data db h of
        Inl e \<Rightarrow> None
      | Inr None \<Rightarrow> None
      | Inr (Some cached_data) \<Rightarrow> if cached_data \<noteq> [] then Some cached_data else None)"

text \<open>
  \<^verbatim>\<open>proxy(path)\<close> with \<^verbatim>\<open>query_params = request.args.to_dict()\<close>. The result is the
  response, the database afterwards and the events of the call.
\<close>

definition proxy ::
  "env \<Rightarrow> database \<Rightarrow> string \<Rightarrow> (string \<times> string) list \<Rightarrow> response \<times> database \<times> event list" where
  "proxy env db path query_params =
     (if \<not> is_allowed_domain path
      then (jsonify_error (Error_message ''Domain not allowed'') 403, db, [])
      else
        let upstream_url = upstream_url_of (quote_plus env) path query_params
        in case request_hash_of env path query_params of
             None \<Rightarrow> upstream_request env db path upstream_url None
           | Some h \<Rightarrow>
               (case cache_lookup db h of
                  Some cached_data \<Rightarrow> (passthrough cached_data 200 ''HIT'', db, [CacheGet h])
                | None \<Rightarrow>
                    (case upstream_request env db path upstream_url (Some h) of
                       (r, db', evs) \<Rightarrow> (r, db', CacheGet h # evs))))"

subsection \<open>The life of the database\<close>

text \<open>
  The states the database file can be in: a new file without the table; then any
  number of \<^verbatim>\<open>init_db\<close> calls, direct \<^verbatim>\<open>cache_data\<close> calls and handled requests, while
  the clock and the faults of the storage change as they like.
\<close>

inductive reachable :: "database \<Rightarrow> bool" where
  new_file: "reachable \<lparr>cache = None, now = t, read_fails = fr, write_fails = fw\<rparr>"
| initialised: "reachable db \<Longrightarrow> init_db db = Inr db' \<Longrightarrow> reachable db'"
| written: "reachable db \<Longrightarrow> cache_data db k v = Inr db' \<Longrightarrow> reachable db'"
| handled: "reachable db \<Longrightarrow> proxy env db path query_params = (r, db', evs) \<Longrightarrow> reachable db'"
| world: "reachable db \<Longrightarrow> reachable (db\<lparr>now := t, read_fails := fr, write_fails := fw\<rparr>)"

text \<open>The number of rows stored under a hash, and the invariant of the table.\<close>

definition entries :: "database \<Rightarrow> string \<Rightarrow> nat" where
  "entries db k =
     (case cache db of
        None \<Rightarrow> 0
      | Some rows \<Rightarrow> length (filter (\<lambda>r. requestHash r = k) rows))"

definition one_entry_per_hash :: "database \<Rightarrow> bool" where
  "one_entry_per_hash db =
     (case cache db of None \<Rightarrow> True | Some rows \<Rightarrow> distinct (map requestHash rows))"

subsection \<open>A concrete setting\<close>

text \<open>
  The requests and bodies of \<^verbatim>\<open>test_app.py\<close>, for the theorems that are evaluated at
  concrete inputs. The three library functions are tables that agree with the real
  ones on the strings listed: the digests are the SHA-256 digests of these strings,
  the parsed values are what \<^verbatim>\<open>json.loads\<close> returns for these bodies, and
  \<^verbatim>\<open>quote_plus\<close> leaves a string of letters, digits, \<^verbatim>\<open>-\<close>, \<^verbatim>\<open>_\<close> and \<^verbatim>\<open>.\<close> as it is.
\<close>

definition historical_path :: string where
  "historical_path = ''openexchangerates.org/api/historical/2024-01-01.json''"

definition historical_query :: "(string \<times> string) list" where
  "historical_query = [(''app_id'', ''test''), (''base'', ''USD'')]"

definition historical_target :: string where
  "historical_target =
     ''/openexchangerates.org/api/historical/2024-01-01.json?app_id=test&base=USD''"

definition historical_hash :: string where
  "historical_hash = ''cf89989b8181a45296541efcf27706b6a42039577c1a0de2833dbf2fa2df8ea9''"

definition historical_url :: string where
  "historical_url =
     ''https://openexchangerates.org/api/historical/2024-01-01.json?app_id=test&base=USD''"

definition rates_body :: string where
  \<open>rates_body = ''{"rates": {"AUD": 1.5}}''\<close>

definition example_sha256 :: "string \<Rightarrow> string" where
  "example_sha256 s =
     (if s = historical_target then historical_hash
      else if s = ''/openexchangerates.org/api/historical/2024-01-01.json''
      then ''37df15d400c81c5d75392d4d9afca88f19e9a9f57b99b268fba9a233669a6e2a''
      else if s = ''/api.twelvedata.com/eod''
      then ''416cd00c55f3263b5e7ad4b2fe91a9279746eda4ffa88c72b947fa9db5b6e0ad''
      else replicate 64 (CHR ''0''))"

definition example_loads :: "string \<Rightarrow> exn + json" where
  \<open>example_loads s =
     (if s = ''{"rates": {"AUD": 1.5}}''
        then Inr (PyDict [(''rates'', PyDict [(''AUD'', PyFloat (Finite (3 / 2)))])])
      else if s = ''{"rates": {}}''
        then Inr (PyDict [(''rates'', PyDict [])])
      else if s = ''{"error": "not found"}''
        then Inr (PyDict [(''error'', PyStr ''not found'')])
      else if s = ''{"close": "150.00"}''
        then Inr (PyDict [(''close'', PyStr ''150.00'')])
      else if s = ''{"code": 429, "message": "rate limit"}''
        then Inr (PyDict [(''code'', PyInt 429), (''message'', PyStr ''rate limit'')])
      else if s = ''{"code": 500, "message": "server error"}''
        then Inr (PyDict [(''code'', PyInt 500), (''message'', PyStr ''server error'')])
      else if s = ''{"code": 200, "close": "150.00"}''
        then Inr (PyDict [(''code'', PyInt 200), (''close'', PyStr ''150.00'')])
      else if s = ''{"code": null}''
        then Inr (PyDict [(''code'', PyNone)])
      else if s = ''5''
        then Inr (PyInt 5)
      else Inl JSONDecodeError)\<close>

definition example_urlopen :: "string \<Rightarrow> upstream" where
  "example_urlopen url =
     (if url = historical_url then Returned 200 rates_body
      else if url = ''https://openexchangerates.org/api/latest.json?app_id=test''
      then Returned 200 rates_body
      else if url = ''https://api.twelvedata.com/eod'' then Returned 200 ''5''
      else Failed ''<urlopen error>'')"

definition example_env :: env where
  "example_env =
     \<lparr>sha256_hexdigest = example_sha256, quote_plus = (\<lambda>s. s),
      json_loads = example_loads, urlopen = example_urlopen\<rparr>"

text \<open>An initialised, working database with no row, with one row, with an empty body.\<close>

definition empty_db :: database where
  "empty_db = \<lparr>cache = Some [], now = 0, read_fails = False, write_fails = False\<rparr>"

definition seeded_db :: database where
  \<open>seeded_db =
     \<lparr>cache = Some [\<lparr>requestHash = historical_hash, data = ''{"rates": {"AUD": 1.0}}'',
                      created_at = 0\<rparr>],
      now = 1, read_fails = False, write_fails = False\<rparr>\<close>

definition blank_db :: database where
  "blank_db =
     \<lparr>cache = Some [\<lparr>requestHash = historical_hash, data = '''', created_at = 0\<rparr>],
      now = 1, read_fails = False, write_fails = False\<rparr>"

text \<open>A database whose every read and write raises.\<close>

definition failing_db :: database where
  "failing_db = \<lparr>cache = Some [], now = 0, read_fails = True, write_fails = True\<rparr>"

section \<open>Properties\<close>

subsection \<open>Prefixes\<close>

lemma startswith_prefix: "startswith s p \<longleftrightarrow> prefix p s"
proof
  assume "startswith s p"
  then have "s = p @ drop (length p) s"
    by (metis append_take_drop_id startswith_def)
  then show "prefix p s" by (metis prefixI)
next
  assume "prefix p s"
  then show "startswith s p" by (auto simp: startswith_def prefix_def)
qed

lemma is_allowed_domain_iff:
  "is_allowed_domain path \<longleftrightarrow> (\<exists>d \<in> set ALLOWED_DOMAINS. prefix d (lstrip_slash path))"
  by (simp add: is_allowed_domain_def Let_def list_ex_iff startswith_prefix)

lemma is_cacheable_path_cases:
  "is_cacheable_path path \<longleftrightarrow>
     prefix ''openexchangerates.org/api/historical'' (lstrip_slash path) \<or>
     prefix ''api.twelvedata.com/eod'' (lstrip_slash path)"
  by (simp add: is_cacheable_path_def Let_def list_ex_iff startswith_prefix CACHEABLE_PATHS_def)

lemma historical_prefix_domain:
  "prefix ''openexchangerates.org/api/historical'' s \<Longrightarrow> prefix ''openexchangerates.org'' s"
  by (auto simp: prefix_def)

lemma eod_prefix_domain:
  "prefix ''api.twelvedata.com/eod'' s \<Longrightarrow> prefix ''api.twelvedata.com'' s"
  by (auto simp: prefix_def)

lemma eod_not_openexchangerates:
  "prefix ''api.twelvedata.com/eod'' s \<Longrightarrow> \<not> prefix ''openexchangerates.org'' s"
  by (auto simp: prefix_def)

lemma cacheable_imp_allowed: "is_cacheable_path path \<Longrightarrow> is_allowed_domain path"
  by (auto simp: is_cacheable_path_cases is_allowed_domain_iff ALLOWED_DOMAINS_def
      dest: historical_prefix_domain eod_prefix_domain)

lemmas gate_eval =
  is_allowed_domain_def is_cacheable_path_def ALLOWED_DOMAINS_def CACHEABLE_PATHS_def
  lstrip_slash_def startswith_def Let_def

subsection \<open>Response gate\<close>

lemma twelvedata_response_gate:
  assumes "prefix ''api.twelvedata.com/eod'' (lstrip_slash path)"
  shows "should_cache_response loads path 200 payload =
    (case twelvedata_try loads payload of
       Inl e \<Rightarrow> if e = JSONDecodeError \<or> e = KeyError then Inr True else Inl e
     | Inr decision \<Rightarrow> Inr decision)"
proof -
  have c: "is_cacheable_path path" using assms by (simp add: is_cacheable_path_cases)
  have d: "startswith (lstrip_slash path) ''api.twelvedata.com''"
    using assms by (simp add: startswith_prefix eod_prefix_domain)
  have e: "\<not> startswith (lstrip_slash path) ''openexchangerates.org''"
    using assms by (simp add: startswith_prefix eod_not_openexchangerates)
  show ?thesis by (simp add: should_cache_response_def c d e)
qed

lemma eod_unparseable:
  assumes "prefix ''api.twelvedata.com/eod'' (lstrip_slash path)"
      and "loads payload = Inl JSONDecodeError"
  shows "should_cache_response loads path 200 payload = Inr True"
  by (simp add: twelvedata_response_gate [OF assms(1)] twelvedata_try_def assms(2))

lemma eod_no_code:
  assumes "prefix ''api.twelvedata.com/eod'' (lstrip_slash path)"
      and "loads payload = Inr (PyDict items)"
      and "map_of items ''code'' = None"
  shows "should_cache_response loads path 200 payload = Inr True"
proof -
  have "''code'' \<notin> fst ` set items" using assms(3) by (simp add: map_of_eq_None_iff)
  then show ?thesis
    by (simp add: twelvedata_response_gate [OF assms(1)] twelvedata_try_def assms(2))
qed

lemma eod_int_code:
  assumes "prefix ''api.twelvedata.com/eod'' (lstrip_slash path)"
      and "loads payload = Inr (PyDict items)"
      and "map_of items ''code'' = Some (PyInt c)"
  shows "should_cache_response loads path 200 payload =
           Inr (\<not> (c = 429 \<or> (500 \<le> c \<and> c \<le> 599)))"
proof -
  have "''code'' \<in> fst ` set items"
    using assms(3) by (metis map_of_eq_None_iff option.distinct(1))
  then show ?thesis
    by (auto simp add: twelvedata_response_gate [OF assms(1)] twelvedata_try_def assms(2,3))
qed

text \<open>
  For a code that is a number the decision is the one the source writes down:
  reject exactly for 429 and for the half-open range from 500 up to 600.
\<close>

lemma eod_number_code:
  assumes "prefix ''api.twelvedata.com/eod'' (lstrip_slash path)"
      and "loads payload = Inr (PyDict items)"
      and "map_of items ''code'' = Some code"
      and "code = PyInt n \<or> code = PyBool b \<or> code = PyFloat x"
  shows "should_cache_response loads path 200 payload =
           Inr (\<not> (py_eq_int code 429 \<or>
                     (py_ge_int code 500 = Inr True \<and> py_lt_int code 600 = Inr True)))"
proof -
  have m: "''code'' \<in> fst ` set items"
    using assms(3) by (metis map_of_eq_None_iff option.distinct(1))
  from assms(4) consider "code = PyInt n" | "code = PyBool b" | "code = PyFloat x" by blast
  then show ?thesis
  proof cases
    case 1
    with m show ?thesis
      by (auto simp add: twelvedata_response_gate [OF assms(1)] twelvedata_try_def assms(2,3))
  next
    case 2
    with m show ?thesis
      by (auto simp add: twelvedata_response_gate [OF assms(1)] twelvedata_try_def assms(2,3))
  next
    case 3
    with m show ?thesis
      by (cases x)
        (auto simp add: twelvedata_response_gate [OF assms(1)] twelvedata_try_def assms(2,3))
  qed
qed

text \<open>
  After \<^verbatim>\<open>"code" in json_data\<close> has answered true, the subscript cannot raise
  \<^verbatim>\<open>KeyError\<close>; and whatever leaves \<^const>\<open>should_cache_response\<close> is either an exception
  of the parser other than \<^verbatim>\<open>JSONDecodeError\<close>, or a \<^verbatim>\<open>TypeError\<close> for a body that did
  parse. It happens only under \<^verbatim>\<open>api.twelvedata.com/eod\<close> with status 200.
\<close>

lemma contains_code_no_key_error:
  "contains_code json_data = Inr True \<Longrightarrow> getitem_code json_data \<noteq> Inl KeyError"
proof (cases json_data)
  case (PyDict items)
  assume "contains_code json_data = Inr True"
  with PyDict have "map_of items ''code'' \<noteq> None"
    by (simp add: map_of_eq_None_iff)
  with PyDict show ?thesis by (auto split: option.splits)
qed simp_all

lemma twelvedata_try_raises:
  assumes "twelvedata_try loads payload = Inl e"
  shows "loads payload = Inl e \<or> (\<exists>json_data. loads payload = Inr json_data \<and> e = TypeError)"
proof (cases "loads payload")
  case (Inl e')
  with assms show ?thesis by (simp add: twelvedata_try_def)
next
  case (Inr json_data)
  have c: "contains_code json_data = Inl x \<Longrightarrow> x = TypeError" for x
    by (cases json_data) auto
  have g: "getitem_code json_data = Inl x \<Longrightarrow> contains_code json_data = Inr True \<Longrightarrow> x = TypeError" for x
    by (cases json_data) (auto simp: map_of_eq_None_iff split: option.splits)
  have ge: "py_ge_int v k = Inl x \<Longrightarrow> x = TypeError" for v k x
    by (cases "(v, k)" rule: py_ge_int.cases) auto
  have lt: "py_lt_int v k = Inl x \<Longrightarrow> x = TypeError" for v k x
    by (cases "(v, k)" rule: py_lt_int.cases) auto
  from assms Inr have "e = TypeError"
    by (auto simp: twelvedata_try_def split: sum.splits if_splits dest: c g ge lt)
  with Inr show ?thesis by simp
qed

lemma should_cache_response_raises_only:
  assumes "should_cache_response loads path status_code payload = Inl e"
  shows "status_code = 200 \<and> prefix ''api.twelvedata.com/eod'' (lstrip_slash path)
       \<and> e \<noteq> JSONDecodeError \<and> e \<noteq> KeyError
       \<and> (loads payload = Inl e \<or> (\<exists>json_data. loads payload = Inr json_data \<and> e = TypeError))"
proof -
  from assms have c: "is_cacheable_path path" and s: "status_code = 200"
    and o: "\<not> startswith (lstrip_slash path) ''openexchangerates.org''"
    by (auto simp: should_cache_response_def Let_def split: if_splits)
  from c o have p: "prefix ''api.twelvedata.com/eod'' (lstrip_slash path)"
    by (auto simp: is_cacheable_path_cases startswith_prefix dest: historical_prefix_domain)
  from assms s have t: "twelvedata_try loads payload = Inl e" and n: "e \<noteq> JSONDecodeError" "e \<noteq> KeyError"
    by (auto simp: twelvedata_response_gate [OF p] split: sum.splits if_splits)
  from twelvedata_try_raises [OF t] s p n show ?thesis by simp
qed

text \<open>
  Claim C1 says that the gates never raise, whatever the body. The request gate cannot:
  \<^const>\<open>is_allowed_domain\<close> and \<^const>\<open>is_cacheable_path\<close> only strip and compare strings.
  The response gate can. For a path under \<^verbatim>\<open>api.twelvedata.com/eod\<close> and status 200, a
  body that parses to a number makes \<^verbatim>\<open>"code" in json_data\<close> raise \<^verbatim>\<open>TypeError\<close>, which
  the \<^verbatim>\<open>except (json.JSONDecodeError, KeyError)\<close> clause does not catch: the exception
  leaves \<^const>\<open>should_cache_response\<close>.
\<close>

theorem should_cache_response_raises_on_number:
  assumes "prefix ''api.twelvedata.com/eod'' (lstrip_slash path)"
      and "loads payload = Inr (PyInt n)"
  shows "should_cache_response loads path 200 payload = Inl TypeError"
  by (simp add: twelvedata_response_gate [OF assms(1)] twelvedata_try_def assms(2))

theorem should_cache_response_raises_on_number_witness:
  "should_cache_response example_loads ''/api.twelvedata.com/eod'' 200 ''5'' = Inl TypeError"
proof -
  have p: "prefix ''api.twelvedata.com/eod'' (lstrip_slash ''/api.twelvedata.com/eod'')"
    by (simp add: lstrip_slash_def)
  have l: "example_loads ''5'' = Inr (PyInt 5)"
    by (simp add: example_loads_def)
  show ?thesis
    by (rule should_cache_response_raises_on_number
          [where loads = example_loads and payload = "''5''", OF p l])
qed

text \<open>
  Claim C2 gives the decision for every body under \<^verbatim>\<open>api.twelvedata.com/eod\<close> with status
  200: admit a body that does not parse, admit a body without \<^verbatim>\<open>"code"\<close>, and otherwise
  reject exactly for 429 and for 500 to 599. The code does so for a body that does not
  parse (\<open>eod_unparseable\<close>), for an object without \<^verbatim>\<open>"code"\<close> (\<open>eod_no_code\<close>) and
  for an object whose code is an integer (\<open>eod_int_code\<close>). It does not where the code is
  present and is not a number: the claim says admit, and \<^verbatim>\<open>code >= 500\<close> raises
  \<^verbatim>\<open>TypeError\<close>, as here for \<^verbatim>\<open>{"code": null}\<close>.
\<close>

theorem should_cache_response_raises_on_null_code:
  assumes "prefix ''api.twelvedata.com/eod'' (lstrip_slash path)"
      and "loads payload = Inr (PyDict items)"
      and "map_of items ''code'' = Some PyNone"
  shows "should_cache_response loads path 200 payload = Inl TypeError"
proof -
  have "''code'' \<in> fst ` set items"
    using assms(3) by (metis map_of_eq_None_iff option.distinct(1))
  then show ?thesis
    by (simp add: twelvedata_response_gate [OF assms(1)] twelvedata_try_def assms(2,3))
qed

theorem should_cache_response_raises_on_null_code_witness:
  \<open>should_cache_response example_loads ''/api.twelvedata.com/eod'' 200 ''{"code": null}''
     = Inl TypeError\<close>
proof -
  have p: "prefix ''api.twelvedata.com/eod'' (lstrip_slash ''/api.twelvedata.com/eod'')"
    by (simp add: lstrip_slash_def)
  have l: \<open>example_loads ''{"code": null}'' = Inr (PyDict [(''code'', PyNone)])\<close>
    by (simp add: example_loads_def)
  have m: "map_of [(''code'', PyNone)] ''code'' = Some PyNone" by simp
  show ?thesis
    by (rule should_cache_response_raises_on_null_code
          [where loads = example_loads and items = "[(''code'', PyNone)]", OF p l m])
qed

text \<open>
  Claim C3: for every path under \<^verbatim>\<open>openexchangerates.org/api/historical\<close> (leading
  slashes aside) the response gate returns, without raising and without looking at the
  body, true for status 200 and false for every other status.
\<close>

theorem historical_policy:
  assumes "prefix ''openexchangerates.org/api/historical'' (lstrip_slash path)"
  shows "should_cache_response loads path status_code payload = Inr (status_code = 200)"
proof -
  have c: "is_cacheable_path path" using assms by (simp add: is_cacheable_path_cases)
  have d: "startswith (lstrip_slash path) ''openexchangerates.org''"
    using assms by (simp add: startswith_prefix historical_prefix_domain)
  show ?thesis by (simp add: should_cache_response_def c d)
qed

theorem historical_policy_witness:
  \<open>should_cache_response example_loads
      ''/openexchangerates.org/api/historical/2024-01-01.json'' 200 ''{"rates": {}}'' = Inr True
   \<and> should_cache_response example_loads
      ''/openexchangerates.org/api/historical/2024-01-01.json'' 404 ''{"error": "not found"}''
        = Inr False\<close>
proof -
  have p: "prefix ''openexchangerates.org/api/historical''
             (lstrip_slash ''/openexchangerates.org/api/historical/2024-01-01.json'')"
    by (simp add: lstrip_slash_def)
  show ?thesis
    using historical_policy [OF p, of example_loads 200]
          historical_policy [OF p, of example_loads 404]
    by simp
qed

subsection \<open>Fingerprint\<close>








subsection \<open>Cache store\<close>

lemma find_insert_or_replace:
  "requestHash row = k \<Longrightarrow>
   find (\<lambda>r. requestHash r = k) (insert_or_replace row rows) = Some row"
  by (induction rows) (auto simp: insert_or_replace_def)

lemma count_insert_or_replace:
  "requestHash row = k \<Longrightarrow>
   length (filter (\<lambda>r. requestHash r = k) (insert_or_replace row rows)) = 1"
  by (induction rows) (auto simp: insert_or_replace_def)

lemma distinct_insert_or_replace:
  "distinct (map requestHash rows) \<Longrightarrow>
   distinct (map requestHash (insert_or_replace row rows))"
  by (auto simp: insert_or_replace_def distinct_map_filter)

lemma find_absent:
  "k \<notin> requestHash ` set rows \<Longrightarrow> find (\<lambda>r. requestHash r = k) rows = None"
  by (induction rows) auto

lemma cache_data_works:
  assumes "cache db = Some rows" and "\<not> write_fails db"
  shows "cache_data db k v =
           Inr (db\<lparr>cache := Some (insert_or_replace
                  \<lparr>requestHash = k, data = v, created_at = now db\<rparr> rows)\<rparr>)"
  using assms by (simp add: cache_data_def)

lemma get_after_cache_data:
  assumes "cache_data db k v = Inr db'" and "\<not> read_fails db"
  shows "get_cached_data db' k = Inr (Some v)"
  using assms
  by (auto simp: cache_data_def get_cached_data_def find_insert_or_replace
      split: if_splits option.splits)

lemma entries_after_cache_data:
  assumes "cache_data db k v = Inr db'"
  shows "entries db' k = 1"
  using assms
  by (auto simp: cache_data_def entries_def count_insert_or_replace
      split: if_splits option.splits)

lemma cache_data_other_key:
  assumes "cache_data db k' v' = Inr db'" and "k' \<noteq> k"
  shows "get_cached_data db' k = get_cached_data db k"
proof -
  have "find (\<lambda>r. requestHash r = k) (insert_or_replace row rows) =
        find (\<lambda>r. requestHash r = k) rows" if "requestHash row \<noteq> k" for row rows
    using that by (induction rows) (auto simp: insert_or_replace_def)
  with assms show ?thesis
    by (auto simp: cache_data_def get_cached_data_def split: if_splits option.splits)
qed

lemma init_db_new_file:
  assumes "cache db = None" and "init_db db = Inr db'" and "\<not> read_fails db"
  shows "get_cached_data db' k = Inr None"
  using assms by (auto simp: init_db_def get_cached_data_def split: if_splits)

text \<open>
  Claim C7: on a database whose table exists and whose reads and writes succeed,
  \<^const>\<open>cache_data\<close> followed by \<^const>\<open>get_cached_data\<close> on the same key returns exactly
  the stored text, the empty string included; a key with no row yields \<^verbatim>\<open>None\<close> and no
  exception, and stays without a row whatever is written under other keys.
\<close>

theorem store_round_trip:
  assumes "cache db = Some rows" and "\<not> write_fails db" and "\<not> read_fails db"
  shows "(\<exists>db'. cache_data db k v = Inr db' \<and> get_cached_data db' k = Inr (Some v))
       \<and> (k \<notin> requestHash ` set rows \<longrightarrow> get_cached_data db k = Inr None)
       \<and> (\<forall>k' v' db'. k' \<noteq> k \<and> cache_data db k' v' = Inr db'
             \<longrightarrow> get_cached_data db' k = get_cached_data db k)"
proof (intro conjI)
  from assms(1,2) obtain db' where w: "cache_data db k v = Inr db'"
    by (simp add: cache_data_works)
  from w assms(3) have "get_cached_data db' k = Inr (Some v)"
    by (rule get_after_cache_data)
  with w show "\<exists>db'. cache_data db k v = Inr db' \<and> get_cached_data db' k = Inr (Some v)"
    by blast
next
  show "k \<notin> requestHash ` set rows \<longrightarrow> get_cached_data db k = Inr None"
    using assms(1,3) by (simp add: get_cached_data_def find_absent)
next
  show "\<forall>k' v' db'. k' \<noteq> k \<and> cache_data db k' v' = Inr db'
             \<longrightarrow> get_cached_data db' k = get_cached_data db k"
    by (blast intro: cache_data_other_key)
qed

theorem store_round_trip_witness:
  "(\<exists>db'. cache_data empty_db ''test_hash_123'' '''' = Inr db'
          \<and> get_cached_data db' ''test_hash_123'' = Inr (Some ''''))
   \<and> get_cached_data empty_db ''test_hash_123'' = Inr None"
proof -
  have "cache empty_db = Some []" "\<not> write_fails empty_db" "\<not> read_fails empty_db"
    by (simp_all add: empty_db_def)
  from store_round_trip [OF this, of "''test_hash_123''" "''''"]
  show ?thesis by simp
qed

subsection \<open>The invariant of the table\<close>

lemma init_db_invariant:
  "one_entry_per_hash db \<Longrightarrow> init_db db = Inr db' \<Longrightarrow> one_entry_per_hash db'"
  by (auto simp: init_db_def one_entry_per_hash_def split: if_splits option.splits)

lemma cache_data_invariant:
  "one_entry_per_hash db \<Longrightarrow> cache_data db k v = Inr db' \<Longrightarrow> one_entry_per_hash db'"
  by (auto simp: cache_data_def one_entry_per_hash_def distinct_insert_or_replace
      split: if_splits option.splits)

lemma upstream_request_database:
  assumes "upstream_request env db path url rh = (r, db', evs)"
  shows "db' = db \<or> (\<exists>h d. cache_data db h d = Inr db')"
  using assms
  by (auto simp: upstream_request_def split: upstream.splits sum.splits option.splits if_splits)

lemma proxy_database:
  assumes "proxy env db path query_params = (r, db', evs)"
  shows "db' = db \<or> (\<exists>h d. cache_data db h d = Inr db')"
proof (cases "is_allowed_domain path")
  case False
  with assms show ?thesis by (simp add: proxy_def)
next
  case True
  show ?thesis
  proof (cases "request_hash_of env path query_params")
    case None
    with True assms show ?thesis
      by (auto simp: proxy_def Let_def dest: upstream_request_database)
  next
    case (Some h)
    show ?thesis
    proof (cases "cache_lookup db h")
      case hit: (Some cached)
      with True Some assms show ?thesis by (simp add: proxy_def Let_def)
    next
      case None
      with True Some assms show ?thesis
        by (auto simp: proxy_def Let_def split: prod.splits dest: upstream_request_database)
    qed
  qed
qed

lemma reachable_invariant: "reachable db \<Longrightarrow> one_entry_per_hash db"
proof (induction rule: reachable.induct)
  case (new_file t fr fw)
  show ?case by (simp add: one_entry_per_hash_def)
next
  case (initialised db db')
  then show ?case by (blast intro: init_db_invariant)
next
  case (written db k v db')
  then show ?case by (blast intro: cache_data_invariant)
next
  case (handled db env path query_params r db' evs)
  from handled.hyps(2) have "db' = db \<or> (\<exists>h d. cache_data db h d = Inr db')"
    by (rule proxy_database)
  with handled.IH show ?case by (blast intro: cache_data_invariant)
next
  case (world db t fr fw)
  then show ?case by (simp add: one_entry_per_hash_def)
qed

text \<open>
  Claim C8: in every reachable state of the database no two rows share a hash; and on
  a working database two writes under one key leave exactly one row for it, which holds
  the second value.
\<close>

theorem idempotent_overwrite:
  "(reachable db \<longrightarrow> one_entry_per_hash db)
   \<and> (cache db = Some rows \<and> \<not> write_fails db \<and> \<not> read_fails db \<longrightarrow>
        (\<exists>db1 db2. cache_data db k v1 = Inr db1 \<and> cache_data db1 k v2 = Inr db2
           \<and> entries db2 k = 1 \<and> get_cached_data db2 k = Inr (Some v2)))"
proof (intro conjI impI)
  assume "reachable db"
  then show "one_entry_per_hash db" by (rule reachable_invariant)
next
  assume a: "cache db = Some rows \<and> \<not> write_fails db \<and> \<not> read_fails db"
  then obtain db1 where 1: "cache_data db k v1 = Inr db1"
    by (simp add: cache_data_works)
  from a 1 have b: "cache db1 \<noteq> None" "\<not> write_fails db1" "\<not> read_fails db1"
    by (auto simp: cache_data_def)
  then obtain db2 where 2: "cache_data db1 k v2 = Inr db2"
    by (auto simp: cache_data_works)
  from 2 have "entries db2 k = 1" by (rule entries_after_cache_data)
  moreover from 2 b(3) have "get_cached_data db2 k = Inr (Some v2)"
    by (rule get_after_cache_data)
  ultimately show "\<exists>db1 db2. cache_data db k v1 = Inr db1 \<and> cache_data db1 k v2 = Inr db2
           \<and> entries db2 k = 1 \<and> get_cached_data db2 k = Inr (Some v2)"
    using 1 2 by blast
qed

lemma reachable_empty_db: "reachable empty_db"
proof -
  let ?new = "\<lparr>cache = None, now = 0, read_fails = False, write_fails = False\<rparr>"
  have "reachable ?new" by (rule reachable.new_file)
  moreover have "init_db ?new = Inr empty_db" by (simp add: init_db_def empty_db_def)
  ultimately show ?thesis by (rule reachable.initialised)
qed

theorem idempotent_overwrite_witness:
  \<open>one_entry_per_hash empty_db
   \<and> (\<exists>db1 db2. cache_data empty_db ''test_hash_123'' ''{"test": "data"}'' = Inr db1
         \<and> cache_data db1 ''test_hash_123'' ''{"updated": "data"}'' = Inr db2
         \<and> entries db2 ''test_hash_123'' = 1
         \<and> get_cached_data db2 ''test_hash_123'' = Inr (Some ''{"updated": "data"}''))\<close>
proof -
  have "cache empty_db = Some [] \<and> \<not> write_fails empty_db \<and> \<not> read_fails empty_db"
    by (simp add: empty_db_def)
  with reachable_empty_db idempotent_overwrite [of empty_db "[]"]
  show ?thesis by blast
qed

subsection \<open>The handler\<close>

lemma upstream_request_response:
  "fst (upstream_request env db path url rh) = fst (upstream_request env db' path url rh')"
  by (simp add: upstream_request_def split: upstream.splits sum.splits option.splits)

lemma upstream_request_calls:
  "Urlopen url \<in> set (snd (snd (upstream_request env db path url rh)))"
  by (simp add: upstream_request_def split: upstream.splits sum.splits option.splits)

lemma upstream_request_never_hit:
  "(''X-Cache'', ''HIT'') \<notin> set (headers (fst (upstream_request env db path url rh)))"
  by (simp add: upstream_request_def jsonify_error_def passthrough_def
      split: upstream.splits sum.splits option.splits)

lemma request_hash_cacheable:
  "request_hash_of env path query_params = Some h \<Longrightarrow> is_cacheable_path path"
  by (simp add: request_hash_of_def split: if_splits)

lemma proxy_cacheable:
  assumes "request_hash_of env path query_params = Some h"
  shows "proxy env db path query_params =
    (case cache_lookup db h of
       Some cached_data \<Rightarrow> (passthrough cached_data 200 ''HIT'', db, [CacheGet h])
     | None \<Rightarrow>
         (case upstream_request env db path
                 (upstream_url_of (quote_plus env) path query_params) (Some h) of
            (r, db', evs) \<Rightarrow> (r, db', CacheGet h # evs)))"
proof -
  have "is_allowed_domain path"
    using assms by (blast intro: cacheable_imp_allowed request_hash_cacheable)
  then show ?thesis by (simp add: proxy_def assms)
qed

lemma proxy_after_miss:
  assumes "request_hash_of env path query_params = Some h" and "cache_lookup db h = None"
  shows "fst (proxy env db path query_params) =
           fst (upstream_request env db0
                  path (upstream_url_of (quote_plus env) path query_params) rh)"
    and "Urlopen (upstream_url_of (quote_plus env) path query_params)
           \<in> set (snd (snd (proxy env db path query_params)))"
    and "(''X-Cache'', ''HIT'') \<notin> set (headers (fst (proxy env db path query_params)))"
proof -
  let ?url = "upstream_url_of (quote_plus env) path query_params"
  obtain r db' evs where u: "upstream_request env db path ?url (Some h) = (r, db', evs)"
    by (cases "upstream_request env db path ?url (Some h)")
  then have p: "proxy env db path query_params = (r, db', CacheGet h # evs)"
    by (simp add: proxy_cacheable [OF assms(1)] assms(2))
  have "r = fst (upstream_request env db path ?url (Some h))" using u by simp
  also have "\<dots> = fst (upstream_request env db0 path ?url rh)"
    by (rule upstream_request_response)
  finally show "fst (proxy env db path query_params) = fst (upstream_request env db0 path ?url rh)"
    using p by simp
  have "Urlopen ?url \<in> set evs"
    using upstream_request_calls [of ?url env db path "Some h"] u by simp
  then show "Urlopen ?url \<in> set (snd (snd (proxy env db path query_params)))"
    using p by simp
  have "(''X-Cache'', ''HIT'') \<notin> set (headers r)"
    using upstream_request_never_hit [of env db path ?url "Some h"] u by simp
  then show "(''X-Cache'', ''HIT'') \<notin> set (headers (fst (proxy env db path query_params)))"
    using p by simp
qed

text \<open>
  Claim C5: a path that, leading slashes stripped, starts with no allowed domain is
  refused by \<^const>\<open>is_allowed_domain\<close>, and the handler answers 403 with the JSON error
  body, leaves the database as it is and does nothing else: no cache read, no cache
  write, no upstream call.
\<close>

theorem forbidden_domain:
  assumes "\<forall>d \<in> set ALLOWED_DOMAINS. \<not> prefix d (lstrip_slash path)"
  shows "\<not> is_allowed_domain path
       \<and> proxy env db path query_params =
           (\<lparr>body = Error_message ''Domain not allowed'', status = 403,
             headers = [(''Content-Type'', ''application/json'')]\<rparr>, db, [])"
proof -
  have "\<not> is_allowed_domain path" using assms by (simp add: is_allowed_domain_iff)
  then show ?thesis by (simp add: proxy_def jsonify_error_def)
qed

theorem forbidden_domain_witness:
  "\<not> is_allowed_domain ''evil.com/api/data''
   \<and> proxy example_env seeded_db ''evil.com/api/data'' [] =
       (\<lparr>body = Error_message ''Domain not allowed'', status = 403,
         headers = [(''Content-Type'', ''application/json'')]\<rparr>, seeded_db, [])"
proof -
  have "\<forall>d \<in> set ALLOWED_DOMAINS. \<not> prefix d (lstrip_slash ''evil.com/api/data'')"
    by (simp add: ALLOWED_DOMAINS_def lstrip_slash_def)
  then show ?thesis by (rule forbidden_domain)
qed

lemma seeded_request_hash:
  "request_hash_of example_env historical_path historical_query = Some historical_hash"
proof -
  have "is_cacheable_path ''openexchangerates.org/api/historical/2024-01-01.json''"
    by (simp add: gate_eval)
  then show ?thesis
    by (simp add: request_hash_of_def example_env_def full_path_def urlencode_def
          historical_query_def historical_path_def example_sha256_def historical_target_def)
qed

lemma example_upstream_url:
  "upstream_url_of (quote_plus example_env) historical_path historical_query = historical_url"
  by (simp add: upstream_url_of_def full_path_def urlencode_def example_env_def
        historical_query_def historical_path_def historical_url_def)

lemma example_upstream_answer: "urlopen example_env historical_url = Returned 200 rates_body"
  by (simp add: example_env_def example_urlopen_def)

lemma example_admitted:
  "should_cache_response (json_loads example_env) historical_path 200 rates_body = Inr True"
  by (simp add: should_cache_response_def gate_eval historical_path_def)


text \<open>
  Claim C6 as stated, a hit for every stored entry, fails for an entry whose body is the
  empty string: the read returns it, \<^verbatim>\<open>if cached_data:\<close> is false, and the handler calls
  the upstream and answers with its body and \<^verbatim>\<open>X-Cache: MISS\<close>.
\<close>

theorem cache_hit_counterexample:
  "request_hash_of example_env historical_path historical_query = Some historical_hash
   \<and> get_cached_data blank_db historical_hash = Inr (Some '''')
   \<and> proxy example_env blank_db historical_path historical_query =
       (\<lparr>body = Verbatim rates_body, status = 200,
         headers = [(''Content-Type'', ''application/json''), (''X-Cache'', ''MISS'')]\<rparr>,
        blank_db\<lparr>cache :=
          Some [\<lparr>requestHash = historical_hash, data = rates_body, created_at = 1\<rparr>]\<rparr>,
        [CacheGet historical_hash, Urlopen historical_url, CachePut historical_hash rates_body])"
proof -
  have c: "is_cacheable_path historical_path"
    by (simp add: gate_eval historical_path_def)
  have h: "request_hash_of example_env historical_path historical_query = Some historical_hash"
    by (simp add: request_hash_of_def c [unfolded historical_path_def] example_env_def
          full_path_def urlencode_def historical_query_def historical_path_def
          example_sha256_def historical_target_def)
  have g: "get_cached_data blank_db historical_hash = Inr (Some '''')"
    by (simp add: get_cached_data_def blank_db_def)
  have u: "upstream_url_of (quote_plus example_env) historical_path historical_query
             = historical_url"
    by (simp add: upstream_url_of_def full_path_def urlencode_def example_env_def
          historical_query_def historical_path_def historical_url_def)
  have s: "should_cache_response (json_loads example_env) historical_path 200 rates_body
             = Inr True"
    by (simp add: should_cache_response_def gate_eval historical_path_def)
  have w: "cache_data blank_db historical_hash rates_body =
             Inr (blank_db\<lparr>cache :=
               Some [\<lparr>requestHash = historical_hash, data = rates_body, created_at = 1\<rparr>]\<rparr>)"
    by (simp add: cache_data_def blank_db_def insert_or_replace_def)
  have n: "historical_hash \<noteq> []" by (simp add: historical_hash_def)
  have o: "urlopen example_env historical_url = Returned 200 rates_body"
    by (simp add: example_env_def example_urlopen_def)
  have "proxy example_env blank_db historical_path historical_query =
       (passthrough rates_body 200 ''MISS'',
        blank_db\<lparr>cache :=
          Some [\<lparr>requestHash = historical_hash, data = rates_body, created_at = 1\<rparr>]\<rparr>,
        [CacheGet historical_hash, Urlopen historical_url, CachePut historical_hash rates_body])"
    by (simp add: proxy_cacheable [OF h] cache_lookup_def g u upstream_request_def o s w n)
  then show ?thesis using h g by (simp add: passthrough_def)
qed


text \<open>
  The database with an empty body is one the handler itself produces: a first request
  that the upstream answers with status 200 and an empty body stores that body.
\<close>

lemma reachable_blank_db: "reachable blank_db"
proof -
  let ?env = "example_env\<lparr>urlopen := (\<lambda>url. Returned 200 '''')\<rparr>"
  let ?db = "empty_db\<lparr>cache :=
               Some [\<lparr>requestHash = historical_hash, data = '''', created_at = 0\<rparr>]\<rparr>"
  let ?r = "\<lparr>body = Verbatim '''', status = 200,
             headers = [(''Content-Type'', ''application/json''), (''X-Cache'', ''MISS'')]\<rparr>"
  have h: "request_hash_of ?env historical_path historical_query = Some historical_hash"
    using seeded_request_hash
    by (simp add: request_hash_of_def example_env_def split: if_splits)
  have l: "cache_lookup empty_db historical_hash = None"
    by (simp add: cache_lookup_def get_cached_data_def empty_db_def)
  have s: "should_cache_response loads historical_path 200 '''' = Inr True" for loads
    by (simp add: should_cache_response_def gate_eval historical_path_def)
  have w: "cache_data empty_db historical_hash '''' = Inr ?db"
    by (simp add: cache_data_def empty_db_def insert_or_replace_def)
  have n: "historical_hash \<noteq> []" by (simp add: historical_hash_def)
  have "proxy ?env empty_db historical_path historical_query =
          (?r, ?db, [CacheGet historical_hash,
                     Urlopen (upstream_url_of (quote_plus ?env) historical_path historical_query),
                     CachePut historical_hash ''''])"
    by (simp add: proxy_cacheable [OF h] l upstream_request_def s w n passthrough_def)
  with reachable_empty_db have "reachable ?db" by (rule reachable.handled)
  then have "reachable (?db\<lparr>now := 1, read_fails := False, write_fails := False\<rparr>)"
    by (rule reachable.world)
  then show ?thesis by (simp add: blank_db_def empty_db_def)
qed

text \<open>
  Claim C6, amended: for a cacheable request whose fingerprint has a stored entry with a
  body that is not empty, the handler returns that body verbatim with status 200 and
  \<^verbatim>\<open>X-Cache: HIT\<close>; its only event is the cache read, so the upstream is not called and
  the database is unchanged.
\<close>

theorem cache_hit:
  assumes "request_hash_of env path query_params = Some h"
      and "get_cached_data db h = Inr (Some stored)"
      and "stored \<noteq> []"
  shows "proxy env db path query_params =
           (\<lparr>body = Verbatim stored, status = 200,
             headers = [(''Content-Type'', ''application/json''), (''X-Cache'', ''HIT'')]\<rparr>,
            db, [CacheGet h])"
  using assms(2,3) by (simp add: proxy_cacheable [OF assms(1)] cache_lookup_def passthrough_def)

theorem cache_hit_witness:
  \<open>proxy example_env seeded_db historical_path historical_query =
     (\<lparr>body = Verbatim ''{"rates": {"AUD": 1.0}}'', status = 200,
       headers = [(''Content-Type'', ''application/json''), (''X-Cache'', ''HIT'')]\<rparr>,
      seeded_db, [CacheGet historical_hash])\<close>
proof -
  have g: \<open>get_cached_data seeded_db historical_hash = Inr (Some ''{"rates": {"AUD": 1.0}}'')\<close>
    by (simp add: get_cached_data_def seeded_db_def)
  have n: \<open>''{"rates": {"AUD": 1.0}}'' \<noteq> []\<close> by simp
  show ?thesis by (rule cache_hit [OF seeded_request_hash g n])
qed

text \<open>
  Claim C9: when the cache read raises, the handler answers as it does on a miss and as
  the code path without any cache does, and it calls the upstream; when the cache write
  raises after an admitted response, the handler still returns that response, with the
  upstream's status and body and \<^verbatim>\<open>X-Cache: MISS\<close>, and the database is unchanged.
\<close>

theorem cache_failures_absorbed:
  assumes "request_hash_of env path query_params = Some h"
      and "url = upstream_url_of (quote_plus env) path query_params"
  shows "(get_cached_data db h = Inl e \<longrightarrow>
            proxy env db path query_params =
              (case upstream_request env db path url (Some h) of
                 (r, db', evs) \<Rightarrow> (r, db', CacheGet h # evs))
            \<and> (\<forall>db_miss. get_cached_data db_miss h = Inr None \<longrightarrow>
               fst (proxy env db path query_params) = fst (proxy env db_miss path query_params))
            \<and> Urlopen url \<in> set (snd (snd (proxy env db path query_params)))
            \<and> fst (proxy env db path query_params) = fst (upstream_request env db path url None))
       \<and> (cache_lookup db h = None \<and> urlopen env url = Returned status_code d
            \<and> should_cache_response (json_loads env) path status_code d = Inr True
            \<and> cache_data db h d = Inl e' \<longrightarrow>
            proxy env db path query_params =
              (\<lparr>body = Verbatim d, status = status_code,
                headers = [(''Content-Type'', ''application/json''), (''X-Cache'', ''MISS'')]\<rparr>,
               db, CacheGet h # Urlopen url # (if h = [] then [] else [CachePut h d])))"
proof (intro conjI impI allI)
  assume r: "get_cached_data db h = Inl e"
  then have 1: "cache_lookup db h = None" by (simp add: cache_lookup_def)
  show "proxy env db path query_params =
          (case upstream_request env db path url (Some h) of
             (r, db', evs) \<Rightarrow> (r, db', CacheGet h # evs))"
    by (simp add: proxy_cacheable [OF assms(1)] 1 assms(2))
next
  fix db_miss
  assume r: "get_cached_data db h = Inl e" and m: "get_cached_data db_miss h = Inr None"
  from r have 1: "cache_lookup db h = None" by (simp add: cache_lookup_def)
  from m have 2: "cache_lookup db_miss h = None" by (simp add: cache_lookup_def)
  show "fst (proxy env db path query_params) = fst (proxy env db_miss path query_params)"
    using proxy_after_miss(1) [OF assms(1) 1, of db None]
          proxy_after_miss(1) [OF assms(1) 2, of db None] by simp
next
  assume r: "get_cached_data db h = Inl e"
  then have 1: "cache_lookup db h = None" by (simp add: cache_lookup_def)
  show "Urlopen url \<in> set (snd (snd (proxy env db path query_params)))"
    unfolding assms(2) by (rule proxy_after_miss(2) [OF assms(1) 1])
next
  assume r: "get_cached_data db h = Inl e"
  then have 1: "cache_lookup db h = None" by (simp add: cache_lookup_def)
  show "fst (proxy env db path query_params) = fst (upstream_request env db path url None)"
    unfolding assms(2) by (rule proxy_after_miss(1) [OF assms(1) 1])
next
  assume a: "cache_lookup db h = None \<and> urlopen env url = Returned status_code d
            \<and> should_cache_response (json_loads env) path status_code d = Inr True
            \<and> cache_data db h d = Inl e'"
  then show "proxy env db path query_params =
              (\<lparr>body = Verbatim d, status = status_code,
                headers = [(''Content-Type'', ''application/json''), (''X-Cache'', ''MISS'')]\<rparr>,
               db, CacheGet h # Urlopen url # (if h = [] then [] else [CachePut h d]))"
    by (simp add: proxy_cacheable [OF assms(1)] assms(2) [symmetric] upstream_request_def
          passthrough_def)
qed

theorem cache_failures_absorbed_witness:
  "get_cached_data failing_db historical_hash = Inl DatabaseError
   \<and> cache_data failing_db historical_hash rates_body = Inl DatabaseError
   \<and> fst (proxy example_env failing_db historical_path historical_query)
       = fst (proxy example_env empty_db historical_path historical_query)
   \<and> proxy example_env failing_db historical_path historical_query =
       (\<lparr>body = Verbatim rates_body, status = 200,
         headers = [(''Content-Type'', ''application/json''), (''X-Cache'', ''MISS'')]\<rparr>,
        failing_db,
        [CacheGet historical_hash, Urlopen historical_url, CachePut historical_hash rates_body])"
proof -
  have r: "get_cached_data failing_db historical_hash = Inl DatabaseError"
    by (simp add: get_cached_data_def failing_db_def)
  have w: "cache_data failing_db historical_hash rates_body = Inl DatabaseError"
    by (simp add: cache_data_def failing_db_def)
  have m: "get_cached_data empty_db historical_hash = Inr None"
    by (simp add: get_cached_data_def empty_db_def)
  have l: "cache_lookup failing_db historical_hash = None"
    by (simp add: cache_lookup_def r)
  have n: "historical_hash \<noteq> []" by (simp add: historical_hash_def)
  note t = cache_failures_absorbed [OF seeded_request_hash example_upstream_url [symmetric],
      of failing_db DatabaseError 200 rates_body DatabaseError]
  from t r m have "fst (proxy example_env failing_db historical_path historical_query)
       = fst (proxy example_env empty_db historical_path historical_query)"
    by blast
  moreover from t l w example_upstream_answer example_admitted n
  have "proxy example_env failing_db historical_path historical_query =
       (\<lparr>body = Verbatim rates_body, status = 200,
         headers = [(''Content-Type'', ''application/json''), (''X-Cache'', ''MISS'')]\<rparr>,
        failing_db,
        [CacheGet historical_hash, Urlopen historical_url, CachePut historical_hash rates_body])"
    by simp
  ultimately show ?thesis using r w by simp
qed

text \<open>
  Claim C10: when the read returns an entry whose body is the empty string, the handler
  goes on exactly as after a miss: it calls the upstream, its answer is the one a miss
  gives, and it never carries \<^verbatim>\<open>X-Cache: HIT\<close>.
\<close>

theorem empty_body_is_a_miss:
  assumes "request_hash_of env path query_params = Some h"
      and "get_cached_data db h = Inr (Some [])"
      and "url = upstream_url_of (quote_plus env) path query_params"
  shows "proxy env db path query_params =
           (case upstream_request env db path url (Some h) of
              (r, db', evs) \<Rightarrow> (r, db', CacheGet h # evs))
       \<and> Urlopen url \<in> set (snd (snd (proxy env db path query_params)))
       \<and> (''X-Cache'', ''HIT'') \<notin> set (headers (fst (proxy env db path query_params)))
       \<and> (\<forall>db_miss. get_cached_data db_miss h = Inr None \<longrightarrow>
             fst (proxy env db path query_params) = fst (proxy env db_miss path query_params))"
proof (intro conjI allI impI)
  from assms(2) have 1: "cache_lookup db h = None" by (simp add: cache_lookup_def)
  show "proxy env db path query_params =
           (case upstream_request env db path url (Some h) of
              (r, db', evs) \<Rightarrow> (r, db', CacheGet h # evs))"
    by (simp add: proxy_cacheable [OF assms(1)] 1 assms(3))
  show "Urlopen url \<in> set (snd (snd (proxy env db path query_params)))"
    unfolding assms(3) by (rule proxy_after_miss(2) [OF assms(1) 1])
  show "(''X-Cache'', ''HIT'') \<notin> set (headers (fst (proxy env db path query_params)))"
    by (rule proxy_after_miss(3) [OF assms(1) 1])
  fix db_miss
  assume "get_cached_data db_miss h = Inr None"
  then have 2: "cache_lookup db_miss h = None" by (simp add: cache_lookup_def)
  show "fst (proxy env db path query_params) = fst (proxy env db_miss path query_params)"
    using proxy_after_miss(1) [OF assms(1) 1, of db None]
          proxy_after_miss(1) [OF assms(1) 2, of db None] by simp
qed

theorem empty_body_is_a_miss_witness:
  "get_cached_data blank_db historical_hash = Inr (Some '''')
   \<and> Urlopen historical_url
        \<in> set (snd (snd (proxy example_env blank_db historical_path historical_query)))
   \<and> (''X-Cache'', ''HIT'')
        \<notin> set (headers (fst (proxy example_env blank_db historical_path historical_query)))
   \<and> fst (proxy example_env blank_db historical_path historical_query)
        = fst (proxy example_env empty_db historical_path historical_query)"
proof -
  have g: "get_cached_data blank_db historical_hash = Inr (Some '''')"
    by (simp add: get_cached_data_def blank_db_def)
  have m: "get_cached_data empty_db historical_hash = Inr None"
    by (simp add: get_cached_data_def empty_db_def)
  from empty_body_is_a_miss [OF seeded_request_hash g example_upstream_url [symmetric]] m g
  show ?thesis by blast
qed

text \<open>
  What the exception of the response gate does to a request: the upstream answers 200
  with the body \<^verbatim>\<open>5\<close>, and the client gets status 500.
\<close>

lemma proxy_answers_500_to_a_number:
  "proxy example_env empty_db ''api.twelvedata.com/eod'' [] =
     (\<lparr>body = Error_exception TypeError, status = 500,
       headers = [(''Content-Type'', ''application/json'')]\<rparr>,
      empty_db,
      [CacheGet ''416cd00c55f3263b5e7ad4b2fe91a9279746eda4ffa88c72b947fa9db5b6e0ad'',
       Urlopen ''https://api.twelvedata.com/eod''])"
proof -
  let ?h = "''416cd00c55f3263b5e7ad4b2fe91a9279746eda4ffa88c72b947fa9db5b6e0ad''"
  have c: "is_cacheable_path ''api.twelvedata.com/eod''" by (simp add: gate_eval)
  have h: "request_hash_of example_env ''api.twelvedata.com/eod'' [] = Some ?h"
    by (simp add: request_hash_of_def c example_env_def full_path_def urlencode_def
          example_sha256_def historical_target_def)
  have l: "cache_lookup empty_db ?h = None"
    by (simp add: cache_lookup_def get_cached_data_def empty_db_def)
  have u: "upstream_url_of (quote_plus example_env) ''api.twelvedata.com/eod'' []
             = ''https://api.twelvedata.com/eod''"
    by (simp add: upstream_url_of_def full_path_def urlencode_def)
  have o: "urlopen example_env ''https://api.twelvedata.com/eod'' = Returned 200 ''5''"
    by (simp add: example_env_def example_urlopen_def historical_url_def)
  have p: "prefix ''api.twelvedata.com/eod'' (lstrip_slash ''api.twelvedata.com/eod'')"
    by (simp add: lstrip_slash_def)
  have s: "should_cache_response (json_loads example_env) ''api.twelvedata.com/eod'' 200 ''5''
             = Inl TypeError"
    by (simp add: twelvedata_response_gate [OF p] twelvedata_try_def example_env_def
          example_loads_def)
  show ?thesis
    by (simp add: proxy_cacheable [OF h] l u upstream_request_def o s jsonify_error_def)
qed

subsection \<open>The assertions of the test suite\<close>

lemma test_is_allowed_domain:
  "is_allowed_domain ''/openexchangerates.org/api/test''"
  "is_allowed_domain ''/api.twelvedata.com/eod''"
  "\<not> is_allowed_domain ''/evil.com/api''"
  "\<not> is_allowed_domain ''/random.org/data''"
  by (simp_all add: gate_eval)

lemma test_is_cacheable_path:
  "is_cacheable_path ''/openexchangerates.org/api/historical/2024-01-01.json''"
  "is_cacheable_path ''/api.twelvedata.com/eod''"
  "\<not> is_cacheable_path ''/openexchangerates.org/api/latest''"
  "\<not> is_cacheable_path ''/api.twelvedata.com/other''"
  by (simp_all add: gate_eval)

lemma test_should_cache_response_twelvedata:
  \<open>should_cache_response example_loads ''/api.twelvedata.com/eod'' 200
      ''{"close": "150.00"}'' = Inr True\<close>
  \<open>should_cache_response example_loads ''/api.twelvedata.com/eod'' 200
      ''{"code": 429, "message": "rate limit"}'' = Inr False\<close>
  \<open>should_cache_response example_loads ''/api.twelvedata.com/eod'' 200
      ''{"code": 500, "message": "server error"}'' = Inr False\<close>
  \<open>should_cache_response example_loads ''/api.twelvedata.com/eod'' 200
      ''{"code": 200, "close": "150.00"}'' = Inr True\<close>
  \<open>should_cache_response example_loads ''/api.twelvedata.com/eod'' 200
      ''not-json'' = Inr True\<close>
  by (simp_all add: should_cache_response_def gate_eval twelvedata_try_def example_loads_def)

lemma test_cache_miss_and_store:
  "proxy example_env empty_db historical_path historical_query =
     (\<lparr>body = Verbatim rates_body, status = 200,
       headers = [(''Content-Type'', ''application/json''), (''X-Cache'', ''MISS'')]\<rparr>,
      empty_db\<lparr>cache :=
        Some [\<lparr>requestHash = historical_hash, data = rates_body, created_at = 0\<rparr>]\<rparr>,
      [CacheGet historical_hash, Urlopen historical_url, CachePut historical_hash rates_body])"
proof -
  have l: "cache_lookup empty_db historical_hash = None"
    by (simp add: cache_lookup_def get_cached_data_def empty_db_def)
  have w: "cache_data empty_db historical_hash rates_body =
             Inr (empty_db\<lparr>cache :=
               Some [\<lparr>requestHash = historical_hash, data = rates_body, created_at = 0\<rparr>]\<rparr>)"
    by (simp add: cache_data_def empty_db_def insert_or_replace_def)
  have n: "historical_hash \<noteq> []" by (simp add: historical_hash_def)
  show ?thesis
    by (simp add: proxy_cacheable [OF seeded_request_hash] l example_upstream_url
          upstream_request_def example_upstream_answer example_admitted w n passthrough_def)
qed

lemma test_non_cacheable_path:
  "proxy example_env empty_db ''openexchangerates.org/api/latest.json'' [(''app_id'', ''test'')] =
     (\<lparr>body = Verbatim rates_body, status = 200,
       headers = [(''Content-Type'', ''application/json''), (''X-Cache'', ''MISS'')]\<rparr>,
      empty_db,
      [Urlopen ''https://openexchangerates.org/api/latest.json?app_id=test''])"
proof -
  have a: "is_allowed_domain ''openexchangerates.org/api/latest.json''"
    and c: "\<not> is_cacheable_path ''openexchangerates.org/api/latest.json''"
    by (simp_all add: gate_eval)
  have u: "upstream_url_of (quote_plus example_env) ''openexchangerates.org/api/latest.json''
             [(''app_id'', ''test'')] = ''https://openexchangerates.org/api/latest.json?app_id=test''"
    by (simp add: upstream_url_of_def full_path_def urlencode_def example_env_def)
  have o: "urlopen example_env ''https://openexchangerates.org/api/latest.json?app_id=test''
             = Returned 200 rates_body"
    by (simp add: example_env_def example_urlopen_def historical_url_def)
  have s: "should_cache_response loads ''openexchangerates.org/api/latest.json'' 200 rates_body
             = Inr False" for loads
    by (simp add: should_cache_response_def c)
  show ?thesis
    by (simp add: proxy_def a request_hash_of_def c u upstream_request_def o s passthrough_def)
qed

end
